theory Spec2Isabelle
  imports Main "HOL-Library.Sublist" "HOL-Library.Word" "HOL-Library.AList"
begin

unbundle bit_operations_syntax

section \<open>Control-plane state exporter (internal/sos/exporter/export.go)\<close>

subsection \<open>Errors\<close>

text \<open>
  Go errors as values. \<open>Wrap e msg\<close> is \<open>errors.Wrap(e, msg)\<close>; \<open>Wrapf e fmt args\<close> is
  \<open>errors.Wrapf(e, fmt, args...)\<close> with the format string and its arguments kept apart,
  so that the \<open>%q\<close> quoting of the argument is not part of the model.
\<close>

datatype error =
    Err string
  | Wrap error string
  | Wrapf error string "string list"

subsection \<open>API objects\<close>

text \<open>Only the fields the exporter reads are kept.\<close>

record OwnerReference =
  ref_APIVersion :: string
  ref_Kind :: string
  ref_Name :: string

text \<open>
  \<open>Subresources\<close> and \<open>Subresources.Status\<close> are pointers in the source; \<open>None\<close> is nil.
  \<open>CustomResourceSubresourceStatus\<close> is an empty struct.
\<close>

record CustomResourceSubresources =
  sr_Status :: "unit option"

record CustomResourceDefinitionVersion =
  vr_Name :: string
  vr_Storage :: bool
  vr_Subresources :: "CustomResourceSubresources option"

record CustomResourceDefinition =
  crd_Name :: string
  crd_OwnerReferences :: "OwnerReference list"
  crd_Group :: string
  crd_Kind :: string
  crd_Categories :: "string list"
  crd_Versions :: "CustomResourceDefinitionVersion list"

record GroupKind =
  gk_Group :: string
  gk_Kind :: string

record GroupVersionResource =
  gvr_Group :: string
  gvr_Version :: string
  gvr_Resource :: string

record GroupResource =
  gr_Group :: string
  gr_Resource :: string

record RESTMapping =
  rm_Resource :: GroupVersionResource

record ListOptions =
  lo_Limit :: "64 word"
  lo_Continue :: string

record CustomResourceDefinitionList =
  cl_Items :: "CustomResourceDefinition list"
  cl_Continue :: string

subsection \<open>Type filter\<close>

text \<open>\<open>strings.HasSuffix\<close>: \<open>len(s) >= len(suffix) && s[len(s)-len(suffix):] == suffix\<close>.\<close>

definition HasSuffix :: "string \<Rightarrow> string \<Rightarrow> bool" where
  "HasSuffix s sfx = (length sfx \<le> length s \<and> drop (length s - length sfx) s = sfx)"

text \<open>The loop of \<open>shouldExport\<close> over the owner references, returning at the first match.\<close>

fun ownedByPackage :: "OwnerReference list \<Rightarrow> bool" where
  "ownedByPackage [] = False"
| "ownedByPackage (r # rs) =
     (if ref_APIVersion r = ''pkg.crossplane.io/v1'' then True else ownedByPackage rs)"

definition shouldExport :: "CustomResourceDefinition \<Rightarrow> bool" where
  "shouldExport c =
     (if ownedByPackage (crd_OwnerReferences c) then True
      else HasSuffix (crd_Name c) ''.crossplane.io'')"

text \<open>
  The specification's wording of the policy, for comparison with \<open>shouldExport\<close>. The API
  group of an owner reference is the part of its \<open>apiVersion\<close> before the slash (the group
  is empty when there is no slash, as for the core group).
\<close>

definition apiGroup :: "string \<Rightarrow> string" where
  "apiGroup av = (if CHR ''/'' \<in> set av then takeWhile (\<lambda>c. c \<noteq> CHR ''/'') av else [])"

definition inScope_spec :: "CustomResourceDefinition \<Rightarrow> bool" where
  "inScope_spec c =
     ((\<exists>r \<in> set (crd_OwnerReferences c). apiGroup (ref_APIVersion r) = ''pkg.crossplane.io'')
      \<or> suffix ''.crossplane.io'' (crd_Name c))"

subsection \<open>Resource locator\<close>

text \<open>
  The loop of \<open>customResourceGVR\<close>: \<open>version\<close> starts empty and every version flagged as
  storage overwrites it.
\<close>

fun storageVersion :: "string \<Rightarrow> CustomResourceDefinitionVersion list \<Rightarrow> string" where
  "storageVersion version [] = version"
| "storageVersion version (vr # vrs) =
     storageVersion (if vr_Storage vr then vr_Name vr else version) vrs"

text \<open>The REST mapper is an interface handed to the exporter: a parameter.\<close>

type_synonym RESTMapper = "GroupKind \<Rightarrow> string \<Rightarrow> error + RESTMapping"

definition customResourceGVR ::
  "RESTMapper \<Rightarrow> CustomResourceDefinition \<Rightarrow> error + GroupVersionResource" where
  "customResourceGVR resourceMapper c =
     (let version = storageVersion [] (crd_Versions c) in
      case resourceMapper \<lparr>gk_Group = crd_Group c, gk_Kind = crd_Kind c\<rparr> version of
        Inl err \<Rightarrow> Inl (Wrapf err ''cannot get REST mapping for %q'' [crd_Name c])
      | Inr rm \<Rightarrow> Inr (rm_Resource rm))"

subsection \<open>Status subresource flag\<close>

text \<open>The loop of \<open>Export\<close> that computes \<open>sub\<close>, leaving at the first match.\<close>

fun statusSubresource :: "CustomResourceDefinitionVersion list \<Rightarrow> bool" where
  "statusSubresource [] = False"
| "statusSubresource (vr # vrs) =
     (if vr_Storage vr \<and> vr_Subresources vr \<noteq> None
         \<and> sr_Status (the (vr_Subresources vr)) \<noteq> None
      then True else statusSubresource vrs)"


subsection \<open>Paginated discovery of the type definitions\<close>

text \<open>
  The CRD client is an interface: its \<open>List\<close> call is a parameter, with the server's state
  threaded through, so that successive calls may answer differently. The page size
  \<open>defaultPageSize\<close> is a constant of the package declared outside this file: a parameter.
  The loop has no bound of its own; it is a partial function, \<open>None\<close> when it never leaves.
\<close>

type_synonym 's CRDLister =
  "'s \<Rightarrow> ListOptions \<Rightarrow> (error + CustomResourceDefinitionList) \<times> 's"

partial_function (option) fetchLoop ::
  "64 word \<Rightarrow> 's CRDLister \<Rightarrow> 's \<Rightarrow> CustomResourceDefinition list \<Rightarrow> string
     \<Rightarrow> ((error + CustomResourceDefinition list) \<times> 's) option" where
  "fetchLoop defaultPageSize kube s crds continueToken =
     (case kube s \<lparr>lo_Limit = defaultPageSize, lo_Continue = continueToken\<rparr> of
        (r, s') \<Rightarrow>
          (case r of
             Inl err \<Rightarrow> Some (Inl (Wrap err ''cannot list CRDs''), s')
           | Inr l \<Rightarrow>
               (if cl_Continue l = []
                then Some (Inr (crds @ cl_Items l), s')
                else fetchLoop defaultPageSize kube s' (crds @ cl_Items l) (cl_Continue l))))"

declare fetchLoop.simps [code]

definition fetchAllCRDs ::
  "64 word \<Rightarrow> 's CRDLister \<Rightarrow> 's
     \<Rightarrow> ((error + CustomResourceDefinition list) \<times> 's) option" where
  "fetchAllCRDs defaultPageSize kube s = fetchLoop defaultPageSize kube s [] []"

text \<open>
  A listing split across pages, as the server \<open>kube\<close> in state \<open>s\<close> serves it to a client
  that asks with the page size \<open>P\<close> and the token \<open>tok\<close>: every page but the last carries a
  continuation token, which is the token of the next request, and the last carries none.
\<close>

fun paged ::
  "64 word \<Rightarrow> 's CRDLister \<Rightarrow> 's \<Rightarrow> string \<Rightarrow> CustomResourceDefinitionList list \<Rightarrow> bool" where
  "paged P kube s tok [] = False"
| "paged P kube s tok [p] =
     (fst (kube s \<lparr>lo_Limit = P, lo_Continue = tok\<rparr>) = Inr p \<and> cl_Continue p = [])"
| "paged P kube s tok (p # q # ps) =
     (fst (kube s \<lparr>lo_Limit = P, lo_Continue = tok\<rparr>) = Inr p \<and> cl_Continue p \<noteq> []
      \<and> paged P kube (snd (kube s \<lparr>lo_Limit = P, lo_Continue = tok\<rparr>)) (cl_Continue p) (q # ps))"

text \<open>The state in which the server is left after serving the pages.\<close>

fun served :: "64 word \<Rightarrow> 's CRDLister \<Rightarrow> 's \<Rightarrow> string \<Rightarrow> CustomResourceDefinitionList list \<Rightarrow> 's" where
  "served P kube s tok [] = s"
| "served P kube s tok (p # ps) =
     served P kube (snd (kube s \<lparr>lo_Limit = P, lo_Continue = tok\<rparr>)) (cl_Continue p) ps"


subsection \<open>The world outside the exporter\<close>

text \<open>
  The exporter works on the operating system's file system through \<open>afero\<close>, on the
  cluster through its clients, and writes the archive through the \<open>archiver\<close> library.
  The world is an explicit state. A staging directory holds the files written into it, in
  the order of writing; a file of the staging tree is identified by what its path is
  derived from.
\<close>

type_synonym path = string

record TypeMeta =
  tm_Categories :: "string list"
  tm_WithStatusSubresource :: bool

record Unstructured =
  u_Namespace :: string
  u_Name :: string
  u_Object :: string

datatype staged =
    TypeFile GroupVersionResource TypeMeta
  | InstanceFile GroupVersionResource string string string
  | SummaryFile "(string \<times> nat) list"

datatype content = Empty | Partial | Archived "staged list"

record File =
  f_Mode :: "32 word"
  f_Data :: content

datatype event =
    TempDir_ev "error + path"
  | ExportResources_ev GroupVersionResource TypeMeta "error + nat"
  | ExportMetadata_ev "(string \<times> nat) list" "error option"
  | FilesFromDisk_ev path "error option"
  | Create_ev path "error option"
  | Chmod_ev path "32 word" "error option"
  | Archive_ev path "error option"
  | Close_ev path
  | RemoveAll_ev path "error option"

record 's world =
  kube :: 's
  dirs :: "path \<rightharpoonup> staged list"
  files :: "path \<rightharpoonup> File"
  trace :: "event list"

text \<open>
  What the exporter is constructed with (\<open>Options\<close>, the clients, the mapper), and what
  the world decides: whether a call of the operating system or of a library fails, which
  name the temporary directory gets, the process's umask. Every failure the source checks
  for (or ignores) can be injected here.
\<close>

record 's env =
  OutputArchive :: path
  defaultPageSize :: "64 word"
  crdClient :: "'s CRDLister"
  resourceMapper :: RESTMapper
  dynamicClient :: "GroupVersionResource \<Rightarrow> Unstructured list \<times> error option"
  probe :: "error option"
  os_TempDir :: "error + path"
  os_WriteFile :: "staged \<Rightarrow> error option"
  os_RemoveAll :: "path \<Rightarrow> error option"
  os_Create :: "path \<Rightarrow> error option"
  os_Chmod :: "path \<Rightarrow> error option"
  os_umask :: "32 word"
  lib_FilesFromDisk :: "path \<Rightarrow> error option"
  lib_Archive :: "path \<Rightarrow> error option"

definition log :: "event \<Rightarrow> 's world \<Rightarrow> 's world" where
  "log ev w = w\<lparr>trace := trace w @ [ev]\<rparr>"

text \<open>\<open>fs.TempDir("", "up")\<close>: a new, empty directory, or an error.\<close>

definition TempDir :: "'s env \<Rightarrow> 's world \<Rightarrow> (error + path) \<times> 's world" where
  "TempDir e w =
     (case os_TempDir e of
        Inl err \<Rightarrow> (Inl err, log (TempDir_ev (Inl err)) w)
      | Inr d \<Rightarrow> (Inr d, log (TempDir_ev (Inr d)) (w\<lparr>dirs := (dirs w)(d \<mapsto> [])\<rparr>)))"

text \<open>\<open>fs.RemoveAll(dir)\<close>: the directory and all it holds are gone, unless the call fails.\<close>

definition RemoveAll :: "'s env \<Rightarrow> path \<Rightarrow> 's world \<Rightarrow> error option \<times> 's world" where
  "RemoveAll e d w =
     (case os_RemoveAll e d of
        Some err \<Rightarrow> (Some err, log (RemoveAll_ev d (Some err)) w)
      | None \<Rightarrow> (None, log (RemoveAll_ev d None) (w\<lparr>dirs := (dirs w)(d := None)\<rparr>)))"

text \<open>
  \<open>fs.Create(name)\<close> is \<open>os.OpenFile(name, O_RDWR|O_CREATE|O_TRUNC, 0666)\<close>: a new file gets
  the mode \<open>0666\<close> (438) less the umask, an existing file is emptied and keeps its mode.
\<close>

definition createdFile :: "'s env \<Rightarrow> path \<Rightarrow> 's world \<Rightarrow> File" where
  "createdFile e p w =
     (case files w p of
        None \<Rightarrow> \<lparr>f_Mode = 438 AND NOT (os_umask e), f_Data = Empty\<rparr>
      | Some f \<Rightarrow> f\<lparr>f_Data := Empty\<rparr>)"

definition Create :: "'s env \<Rightarrow> path \<Rightarrow> 's world \<Rightarrow> error option \<times> 's world" where
  "Create e p w =
     (case os_Create e p of
        Some err \<Rightarrow> (Some err, log (Create_ev p (Some err)) w)
      | None \<Rightarrow>
          (None, log (Create_ev p None) (w\<lparr>files := (files w)(p \<mapsto> createdFile e p w)\<rparr>)))"

text \<open>\<open>fs.Chmod(name, mode)\<close>.\<close>

definition Chmod :: "'s env \<Rightarrow> path \<Rightarrow> 32 word \<Rightarrow> 's world \<Rightarrow> error option \<times> 's world" where
  "Chmod e p m w =
     (case os_Chmod e p of
        Some err \<Rightarrow> (Some err, log (Chmod_ev p m (Some err)) w)
      | None \<Rightarrow>
          (case files w p of
             None \<Rightarrow> (Some (Err ''no such file or directory''),
                       log (Chmod_ev p m (Some (Err ''no such file or directory''))) w)
           | Some f \<Rightarrow> (None, log (Chmod_ev p m None)
                          (w\<lparr>files := (files w)(p \<mapsto> f\<lparr>f_Mode := m\<rparr>)\<rparr>))))"

text \<open>
  \<open>archiver.FilesFromDisk(nil, {dir + "/": ""})\<close>: the files of the tree under \<open>dir\<close>
  (the trailing slash puts them at the root of the archive).
\<close>

definition FilesFromDisk :: "'s env \<Rightarrow> path \<Rightarrow> 's world \<Rightarrow> (error + staged list) \<times> 's world" where
  "FilesFromDisk e d w =
     (case lib_FilesFromDisk e d of
        Some err \<Rightarrow> (Inl err, log (FilesFromDisk_ev d (Some err)) w)
      | None \<Rightarrow>
          (case dirs w d of
             None \<Rightarrow> (Inl (Err ''no such file or directory''),
                       log (FilesFromDisk_ev d (Some (Err ''no such file or directory''))) w)
           | Some fl \<Rightarrow> (Inr fl, log (FilesFromDisk_ev d None) w)))"

text \<open>
  \<open>format.Archive(ctx, out, files)\<close> writes the compressed archive of \<open>files\<close> into the open
  file. When it fails, what it wrote so far stays in the file.
\<close>

definition Archive :: "'s env \<Rightarrow> path \<Rightarrow> staged list \<Rightarrow> 's world \<Rightarrow> error option \<times> 's world" where
  "Archive e p fl w =
     (case lib_Archive e p of
        Some err \<Rightarrow>
          (Some err, log (Archive_ev p (Some err))
             (w\<lparr>files := (files w)(p := map_option (\<lambda>f. f\<lparr>f_Data := Partial\<rparr>) (files w p))\<rparr>))
      | None \<Rightarrow>
          (None, log (Archive_ev p None)
             (w\<lparr>files := (files w)(p := map_option (\<lambda>f. f\<lparr>f_Data := Archived fl\<rparr>) (files w p))\<rparr>)))"

definition Close :: "path \<Rightarrow> 's world \<Rightarrow> 's world" where
  "Close p w = log (Close_ev p) w"

subsection \<open>Archiver\<close>

text \<open>
  \<open>archive\<close>, with the deferred \<open>out.Close()\<close> run on every return after \<open>fs.Create\<close>
  succeeded. The mode \<open>0600\<close> is 384.
\<close>

definition archive :: "'s env \<Rightarrow> path \<Rightarrow> 's world \<Rightarrow> error option \<times> 's world" where
  "archive e dir w =
     (case FilesFromDisk e dir w of
        (Inl err, w1) \<Rightarrow> (Some err, w1)
      | (Inr fl, w1) \<Rightarrow>
          (case Create e (OutputArchive e) w1 of
             (Some err, w2) \<Rightarrow> (Some err, w2)
           | (None, w2) \<Rightarrow>
               (case Chmod e (OutputArchive e) 384 w2 of
                  (Some err, w3) \<Rightarrow> (Some err, Close (OutputArchive e) w3)
                | (None, w3) \<Rightarrow>
                    (case Archive e (OutputArchive e) fl w3 of
                       (r, w4) \<Rightarrow> (r, Close (OutputArchive e) w4)))))"

subsection \<open>Persisting the instances of one type\<close>

text \<open>
  Two files of the staging tree lie at the same path when they are derived from the same
  things: the descriptor of a type from its coordinate, an instance from its coordinate,
  namespace and name; there is one summary.
\<close>

fun samePath :: "staged \<Rightarrow> staged \<Rightarrow> bool" where
  "samePath (TypeFile g _) (TypeFile g' _) = (g = g')"
| "samePath (InstanceFile g ns n _) (InstanceFile g' ns' n' _) = (g = g' \<and> ns = ns' \<and> n = n')"
| "samePath (SummaryFile _) (SummaryFile _) = True"
| "samePath _ _ = False"

text \<open>Writing a file into the staging directory replaces the file at its path, if any.\<close>

definition writeStaged :: "'s env \<Rightarrow> path \<Rightarrow> staged \<Rightarrow> 's world \<Rightarrow> error option \<times> 's world" where
  "writeStaged e d f w =
     (case os_WriteFile e f of
        Some err \<Rightarrow> (Some err, w)
      | None \<Rightarrow>
          (case dirs w d of
             None \<Rightarrow> (Some (Err ''no such file or directory''), w)
           | Some fl \<Rightarrow>
               (None, w\<lparr>dirs := (dirs w)(d \<mapsto> filter (\<lambda>x. \<not> samePath f x) fl @ [f])\<rparr>)))"

text \<open>
  Modelled from the spec: the persister (\<open>NewFileSystemPersister\<close>), which is not under
  src/. Section 4.4: \<open>recordType\<close> writes the descriptor of a type to a per-type location and
  is idempotent; \<open>recordInstance\<close> writes one instance under a path derived from the
  coordinate and the instance's name and namespace, and a file already at that path is a
  fatal collision, never overwritten.
\<close>

definition recordType ::
  "'s env \<Rightarrow> path \<Rightarrow> GroupVersionResource \<Rightarrow> TypeMeta \<Rightarrow> 's world \<Rightarrow> error option \<times> 's world" where
  "recordType e d g tm w = writeStaged e d (TypeFile g tm) w"

definition recordInstance ::
  "'s env \<Rightarrow> path \<Rightarrow> GroupVersionResource \<Rightarrow> Unstructured \<Rightarrow> 's world \<Rightarrow> error option \<times> 's world" where
  "recordInstance e d g u w =
     (let f = InstanceFile g (u_Namespace u) (u_Name u) (u_Object u) in
      case dirs w d of
        None \<Rightarrow> (Some (Err ''no such file or directory''), w)
      | Some fl \<Rightarrow>
          (if \<exists>x \<in> set fl. samePath f x then (Some (Err ''file exists''), w)
           else writeStaged e d f w))"

fun recordInstances ::
  "'s env \<Rightarrow> path \<Rightarrow> GroupVersionResource \<Rightarrow> Unstructured list \<Rightarrow> 's world \<Rightarrow> error option \<times> 's world" where
  "recordInstances e d g [] w = (None, w)"
| "recordInstances e d g (u # us) w =
     (case recordInstance e d g u w of
        (Some err, w') \<Rightarrow> (Some err, w')
      | (None, w') \<Rightarrow> recordInstances e d g us w')"

text \<open>
  Modelled from the spec: \<open>ExportResources\<close> of the exporter built by
  \<open>NewUnstructuredExporter\<close>, which is not under src/. Sections 4.3 to 4.5: the persister is
  called once for the type before fetching begins, then the instances of the coordinate are
  streamed and each is persisted, one file per instance; a page failure aborts the fetch,
  after the instances of the earlier pages were persisted; the count is the number of
  instances persisted. \<open>dynamicClient\<close> gives the instances the server streams for a
  coordinate and the error that ends the stream, if any.
\<close>

definition ExportResources ::
  "'s env \<Rightarrow> path \<Rightarrow> TypeMeta \<Rightarrow> GroupVersionResource \<Rightarrow> 's world \<Rightarrow> (error + nat) \<times> 's world" where
  "ExportResources e d tm g w =
     (case recordType e d g tm w of
        (Some err, w1) \<Rightarrow> (Inl err, log (ExportResources_ev g tm (Inl err)) w1)
      | (None, w1) \<Rightarrow>
          (case recordInstances e d g (fst (dynamicClient e g)) w1 of
             (Some err, w2) \<Rightarrow> (Inl err, log (ExportResources_ev g tm (Inl err)) w2)
           | (None, w2) \<Rightarrow>
               (case snd (dynamicClient e g) of
                  Some err \<Rightarrow> (Inl err, log (ExportResources_ev g tm (Inl err)) w2)
                | None \<Rightarrow>
                    (Inr (length (fst (dynamicClient e g))),
                     log (ExportResources_ev g tm (Inr (length (fst (dynamicClient e g))))) w2))))"

text \<open>
  Modelled from the spec: \<open>ExportMetadata\<close> of the exporter built by
  \<open>NewPersistentMetadataExporter\<close>, which is not under src/. Section 4.5, stage 4: probe the
  target system, then persist the summary with the accumulated counts.
\<close>

definition ExportMetadata ::
  "'s env \<Rightarrow> path \<Rightarrow> (string \<times> nat) list \<Rightarrow> 's world \<Rightarrow> error option \<times> 's world" where
  "ExportMetadata e d crCounts w =
     (case probe e of
        Some err \<Rightarrow> (Some err, log (ExportMetadata_ev crCounts (Some err)) w)
      | None \<Rightarrow>
          (case writeStaged e d (SummaryFile crCounts) w of
             (r, w1) \<Rightarrow> (r, log (ExportMetadata_ev crCounts r) w1)))"

subsection \<open>Orchestrator\<close>

text \<open>\<open>gvr.GroupResource().String()\<close> of apimachinery.\<close>

definition GroupResourceOf :: "GroupVersionResource \<Rightarrow> GroupResource" where
  "GroupResourceOf g = \<lparr>gr_Group = gvr_Group g, gr_Resource = gvr_Resource g\<rparr>"

definition GroupResource_String :: "GroupResource \<Rightarrow> string" where
  "GroupResource_String gr =
     (if length (gr_Group gr) = 0 then gr_Resource gr else gr_Resource gr @ ''.'' @ gr_Group gr)"

text \<open>The \<open>TypeMeta\<close> that \<open>Export\<close> hands to the persister of a type.\<close>

definition descriptor :: "CustomResourceDefinition \<Rightarrow> TypeMeta" where
  "descriptor c =
     (let sub = statusSubresource (crd_Versions c) in
      \<lparr>tm_Categories = crd_Categories c, tm_WithStatusSubresource = sub\<rparr>)"

text \<open>
  The second loop of \<open>Export\<close>, over \<open>exportList\<close>. The map \<open>crCounts\<close> is an association
  list with one entry per key; \<open>crCounts[k] = count\<close> is \<open>AList.update\<close>.
\<close>

fun exportTypes ::
  "'s env \<Rightarrow> path \<Rightarrow> CustomResourceDefinition list \<Rightarrow> (string \<times> nat) list \<Rightarrow> 's world
     \<Rightarrow> (error + (string \<times> nat) list) \<times> 's world" where
  "exportTypes e tmpDir [] crCounts w = (Inr crCounts, w)"
| "exportTypes e tmpDir (c # cs) crCounts w =
     (case customResourceGVR (resourceMapper e) c of
        Inl err \<Rightarrow> (Inl (Wrapf err ''cannot get GVR for %q'' [crd_Name c]), w)
      | Inr g \<Rightarrow>
          (case ExportResources e tmpDir (descriptor c) g w of
             (Inl err, w') \<Rightarrow>
               (Inl (Wrapf err ''cannot export resources for %q'' [crd_Name c]), w')
           | (Inr count, w') \<Rightarrow>
               exportTypes e tmpDir cs
                 (AList.update (GroupResource_String (GroupResourceOf g)) count crCounts) w'))"


text \<open>
  The body of \<open>Export\<close> after the staging directory was created: discovery and filter,
  export, summary, archive. The progress output on the terminal is not modelled.
\<close>

definition exportStages :: "'s env \<Rightarrow> path \<Rightarrow> 's world \<Rightarrow> (error option \<times> 's world) option" where
  "exportStages e tmpDir w =
     (case fetchAllCRDs (defaultPageSize e) (crdClient e) (kube w) of
        None \<Rightarrow> None
      | Some (Inl err, s') \<Rightarrow> Some (Some (Wrap err ''cannot fetch CRDs''), w\<lparr>kube := s'\<rparr>)
      | Some (Inr crdList, s') \<Rightarrow>
          (let exportList = filter shouldExport crdList in
           case exportTypes e tmpDir exportList [] (w\<lparr>kube := s'\<rparr>) of
             (Inl err, w2) \<Rightarrow> Some (Some err, w2)
           | (Inr crCounts, w2) \<Rightarrow>
               (case ExportMetadata e tmpDir crCounts w2 of
                  (Some err, w3) \<Rightarrow> Some (Some (Wrap err ''cannot write export metadata''), w3)
                | (None, w3) \<Rightarrow>
                    (case archive e tmpDir w3 of
                       (Some err, w4) \<Rightarrow>
                         Some (Some (Wrap err ''cannot archive exported state''), w4)
                     | (None, w4) \<Rightarrow> Some (None, w4)))))"

text \<open>
  \<open>Export\<close>: the result is the returned error, \<open>None\<close> for nil. The deferred
  \<open>fs.RemoveAll(tmpDir)\<close> runs on every return after \<open>fs.TempDir\<close> succeeded, and its
  error is dropped.
\<close>

definition Export :: "'s env \<Rightarrow> 's world \<Rightarrow> (error option \<times> 's world) option" where
  "Export e w =
     (case TempDir e w of
        (Inl err, w1) \<Rightarrow> Some (Some (Wrap err ''cannot create temporary directory''), w1)
      | (Inr tmpDir, w1) \<Rightarrow>
          (case exportStages e tmpDir w1 of
             None \<Rightarrow> None
           | Some (r, w2) \<Rightarrow> Some (r, snd (RemoveAll e tmpDir w2))))"

subsection \<open>Observing a run\<close>

text \<open>Kinds of events in the trace of a run.\<close>

fun isExportResources :: "event \<Rightarrow> bool" where
  "isExportResources (ExportResources_ev _ _ _) = True"
| "isExportResources _ = False"

fun isExportMetadata :: "event \<Rightarrow> bool" where
  "isExportMetadata (ExportMetadata_ev _ _) = True"
| "isExportMetadata _ = False"

fun isArchiving :: "event \<Rightarrow> bool" where
  "isArchiving (FilesFromDisk_ev _ _) = True"
| "isArchiving (Create_ev _ _) = True"
| "isArchiving (Chmod_ev _ _ _) = True"
| "isArchiving (Archive_ev _ _) = True"
| "isArchiving (Close_ev _) = True"
| "isArchiving _ = False"

text \<open>
  The events of the types \<open>cs\<close>, resolved to the coordinates \<open>gs\<close>, each exported with
  success and with the count of the instances the server streams for it.
\<close>

definition exported ::
  "'s env \<Rightarrow> CustomResourceDefinition list \<Rightarrow> GroupVersionResource list \<Rightarrow> event list" where
  "exported e cs gs =
     map2 (\<lambda>c g. ExportResources_ev g (descriptor c) (Inr (length (fst (dynamicClient e g)))))
       cs gs"

text \<open>The instance files of the staging tree, and those under the subtree of one type.\<close>

fun isInstance :: "staged \<Rightarrow> bool" where
  "isInstance (InstanceFile _ _ _ _) = True"
| "isInstance _ = False"

fun isInstanceOf :: "GroupVersionResource \<Rightarrow> staged \<Rightarrow> bool" where
  "isInstanceOf g (InstanceFile g' _ _ _) = (g' = g)"
| "isInstanceOf g _ = False"

text \<open>The file that \<open>recordInstance\<close> writes for an instance of a coordinate.\<close>

definition instanceFile :: "GroupVersionResource \<Rightarrow> Unstructured \<Rightarrow> staged" where
  "instanceFile g u = InstanceFile g (u_Namespace u) (u_Name u) (u_Object u)"



fun isCreate :: "event \<Rightarrow> bool" where
  "isCreate (Create_ev _ _) = True"
| "isCreate _ = False"

text \<open>
  What is seen of a run that returned: the error, the staging directory \<open>d\<close>, the file at
  \<open>out\<close>, and the trace.
\<close>

definition observe ::
  "path \<Rightarrow> path \<Rightarrow> (error option \<times> 's world) option
     \<Rightarrow> (error option \<times> staged list option \<times> File option \<times> event list) option" where
  "observe d out res = map_option (\<lambda>(r, w). (r, dirs w d, files w out, trace w)) res"

text \<open>Permission bits that give nothing to the group and to others: none of \<open>077\<close> (63).\<close>

definition ownerOnly :: "32 word \<Rightarrow> bool" where
  "ownerOnly m = (m AND 63 = 0)"

subsection \<open>Scenarios\<close>

text \<open>
  Concrete inputs on which the properties below are evaluated. A server that answers a
  request by its continuation token, refuses a page size other than \<open>P\<close>, and keeps the
  list of the requests it received as its state.
\<close>

definition tokenServer :: "64 word \<Rightarrow> (string \<times> CustomResourceDefinitionList) list \<Rightarrow> (ListOptions list) CRDLister" where
  "tokenServer P tbl reqs opts =
     ((if lo_Limit opts = P
       then (case map_of tbl (lo_Continue opts) of
               Some p \<Rightarrow> Inr p
             | None \<Rightarrow> Inl (Err ''invalid continue token''))
       else Inl (Err ''unexpected limit'')),
      reqs @ [opts])"

definition v1_status :: CustomResourceDefinitionVersion where
  "v1_status = \<lparr>vr_Name = ''v1'', vr_Storage = True,
                 vr_Subresources = Some \<lparr>sr_Status = Some ()\<rparr>\<rparr>"

definition v1_plain :: CustomResourceDefinitionVersion where
  "v1_plain = \<lparr>vr_Name = ''v1'', vr_Storage = True, vr_Subresources = None\<rparr>"

definition v2_plain :: CustomResourceDefinitionVersion where
  "v2_plain = \<lparr>vr_Name = ''v2'', vr_Storage = True, vr_Subresources = Some \<lparr>sr_Status = None\<rparr>\<rparr>"

definition v0_served :: CustomResourceDefinitionVersion where
  "v0_served = \<lparr>vr_Name = ''v0'', vr_Storage = False, vr_Subresources = Some \<lparr>sr_Status = Some ()\<rparr>\<rparr>"

definition crdA :: CustomResourceDefinition where
  "crdA = \<lparr>crd_Name = ''as.x.crossplane.io'', crd_OwnerReferences = [],
            crd_Group = ''x.crossplane.io'', crd_Kind = ''A'', crd_Categories = [''crossplane''],
            crd_Versions = [v0_served, v1_plain]\<rparr>"

definition crdB :: CustomResourceDefinition where
  "crdB = \<lparr>crd_Name = ''bs.y.org'',
            crd_OwnerReferences = [\<lparr>ref_APIVersion = ''pkg.crossplane.io/v1'', ref_Kind = ''ProviderRevision'', ref_Name = ''p1''\<rparr>],
            crd_Group = ''y.org'', crd_Kind = ''B'', crd_Categories = [],
            crd_Versions = [v1_plain]\<rparr>"

definition crdC :: CustomResourceDefinition where
  "crdC = \<lparr>crd_Name = ''cs.x.crossplane.io'', crd_OwnerReferences = [],
            crd_Group = ''x.crossplane.io'', crd_Kind = ''C'', crd_Categories = [],
            crd_Versions = [v1_status]\<rparr>"

definition crdX :: CustomResourceDefinition where
  "crdX = \<lparr>crd_Name = ''composites.example.org'', crd_OwnerReferences = [],
            crd_Group = ''example.org'', crd_Kind = ''Composite'', crd_Categories = [],
            crd_Versions = [v1_plain]\<rparr>"

definition pages3 :: "(string \<times> CustomResourceDefinitionList) list" where
  "pages3 = [([], \<lparr>cl_Items = [crdA, crdX], cl_Continue = ''t1''\<rparr>),
             (''t1'', \<lparr>cl_Items = [crdB], cl_Continue = ''t2''\<rparr>),
             (''t2'', \<lparr>cl_Items = [crdC], cl_Continue = []\<rparr>)]"

text \<open>
  A mapper that knows the kinds \<open>A\<close>, \<open>B\<close> and \<open>C\<close> and refuses an empty version.
\<close>

definition mapper0 :: RESTMapper where
  "mapper0 gk version =
     (if version = [] then Inl (Err ''no matches for kind'')
      else if gk_Kind gk = ''A'' then Inr \<lparr>rm_Resource = \<lparr>gvr_Group = gk_Group gk, gvr_Version = version, gvr_Resource = ''as''\<rparr>\<rparr>
      else if gk_Kind gk = ''B'' then Inr \<lparr>rm_Resource = \<lparr>gvr_Group = gk_Group gk, gvr_Version = version, gvr_Resource = ''bs''\<rparr>\<rparr>
      else if gk_Kind gk = ''C'' then Inr \<lparr>rm_Resource = \<lparr>gvr_Group = gk_Group gk, gvr_Version = version, gvr_Resource = ''cs''\<rparr>\<rparr>
      else Inl (Err ''no matches for kind''))"

definition instances0 :: "GroupVersionResource \<Rightarrow> Unstructured list \<times> error option" where
  "instances0 g =
     (if gvr_Resource g = ''as''
      then ([\<lparr>u_Namespace = [], u_Name = ''a1'', u_Object = ''o1''\<rparr>,
             \<lparr>u_Namespace = ''ns'', u_Name = ''a1'', u_Object = ''o2''\<rparr>], None)
      else if gvr_Resource g = ''cs''
      then ([\<lparr>u_Namespace = [], u_Name = ''c1'', u_Object = ''o3''\<rparr>], None)
      else ([], None))"

definition env0 :: "(ListOptions list) env" where
  "env0 = \<lparr>OutputArchive = ''out.tgz'', defaultPageSize = 500,
            crdClient = tokenServer 500 pages3, resourceMapper = mapper0,
            dynamicClient = instances0, probe = None,
            os_TempDir = Inr ''/tmp/up1'', os_WriteFile = (\<lambda>_. None),
            os_RemoveAll = (\<lambda>_. None), os_Create = (\<lambda>_. None), os_Chmod = (\<lambda>_. None),
            os_umask = 18, lib_FilesFromDisk = (\<lambda>_. None), lib_Archive = (\<lambda>_. None)\<rparr>"

definition world0 :: "(ListOptions list) world" where
  "world0 = \<lparr>kube = [], dirs = Map.empty, files = Map.empty, trace = []\<rparr>"


text \<open>
  A type with an owner reference into the package group at another version than \<open>v1\<close>,
  and a name outside the reserved domain.
\<close>

definition crd_beta :: CustomResourceDefinition where
  "crd_beta = \<lparr>crd_Name = ''widgets.example.org'',
     crd_OwnerReferences = [\<lparr>ref_APIVersion = ''pkg.crossplane.io/v1beta1'',
                             ref_Kind = ''FunctionRevision'', ref_Name = ''fn-1''\<rparr>],
     crd_Group = ''example.org'', crd_Kind = ''Widget'', crd_Categories = [],
     crd_Versions = [v1_plain]\<rparr>"

text \<open>A type with two versions flagged as storage; the mapper knows the second only.\<close>

definition crd_two_storage :: CustomResourceDefinition where
  "crd_two_storage = \<lparr>crd_Name = ''as.x.crossplane.io'', crd_OwnerReferences = [],
     crd_Group = ''x.crossplane.io'', crd_Kind = ''A'', crd_Categories = [],
     crd_Versions = [v1_status, v0_served, v2_plain]\<rparr>"

definition mapper_v2 :: RESTMapper where
  "mapper_v2 gk version =
     (if version = ''v2''
      then Inr \<lparr>rm_Resource = \<lparr>gvr_Group = gk_Group gk, gvr_Version = version,
                                gvr_Resource = ''as''\<rparr>\<rparr>
      else Inl (Err ''no matches for kind''))"

text \<open>A cluster without custom resource definitions: nothing to export.\<close>

definition pages0 :: "(string \<times> CustomResourceDefinitionList) list" where
  "pages0 = [([], \<lparr>cl_Items = [], cl_Continue = []\<rparr>)]"

definition env_none :: "(ListOptions list) env" where
  "env_none = env0\<lparr>crdClient := tokenServer 500 pages0\<rparr>"

text \<open>The removal of the staging directory fails.\<close>

definition env_rm :: "(ListOptions list) env" where
  "env_rm = env_none\<lparr>os_RemoveAll := (\<lambda>_. Some (Err ''permission denied''))\<rparr>"

text \<open>Writing the archive fails.\<close>

definition env_full :: "(ListOptions list) env" where
  "env_full = env_none\<lparr>lib_Archive := (\<lambda>_. Some (Err ''no space left on device''))\<rparr>"

text \<open>Changing the mode of the output file fails.\<close>

definition env_chmod :: "(ListOptions list) env" where
  "env_chmod = env_none\<lparr>os_Chmod := (\<lambda>_. Some (Err ''operation not permitted''))\<rparr>"

text \<open>The probe of the target system fails.\<close>

definition env_probe :: "(ListOptions list) env" where
  "env_probe = env0\<lparr>probe := Some (Err ''connection refused'')\<rparr>"

















section \<open>Properties\<close>

subsection \<open>Type filter\<close>

lemma ownedByPackage_iff:
  "ownedByPackage rs = (\<exists>r \<in> set rs. ref_APIVersion r = ''pkg.crossplane.io/v1'')"
  by (induction rs) auto

lemma HasSuffix_iff: "HasSuffix s sfx = suffix sfx s"
  unfolding HasSuffix_def
proof
  assume a: "length sfx \<le> length s \<and> drop (length s - length sfx) s = sfx"
  have "s = take (length s - length sfx) s @ drop (length s - length sfx) s" by simp
  with a show "suffix sfx s" unfolding suffix_def by metis
next
  assume "suffix sfx s"
  then obtain zs where "s = zs @ sfx" unfolding suffix_def by blast
  then show "length sfx \<le> length s \<and> drop (length s - length sfx) s = sfx" by simp
qed

text \<open>
  C1, as stated: \<open>shouldExport\<close> is true if and only if the type has an owner reference to
  the package-management API group or its name ends with \<open>.crossplane.io\<close>. This fails:
  \<open>crd_beta\<close> has an owner reference whose API group is \<open>pkg.crossplane.io\<close>, at the version
  \<open>v1beta1\<close>, and \<open>shouldExport\<close> is false on it.
\<close>

theorem shouldExport_group_counterexample:
  "inScope_spec crd_beta \<and> \<not> shouldExport crd_beta"
  by (simp add: inScope_spec_def shouldExport_def crd_beta_def apiGroup_def HasSuffix_def)

text \<open>
  C1, amended: \<open>shouldExport\<close> is true if and only if the type has an owner reference whose
  \<open>apiVersion\<close> is exactly \<open>pkg.crossplane.io/v1\<close>, or its name ends with \<open>.crossplane.io\<close>;
  it is false for every other type. It is a function of the type alone.
\<close>

theorem shouldExport_iff:
  "shouldExport c =
     ((\<exists>r \<in> set (crd_OwnerReferences c). ref_APIVersion r = ''pkg.crossplane.io/v1'')
      \<or> suffix ''.crossplane.io'' (crd_Name c))"
  by (simp add: shouldExport_def ownedByPackage_iff HasSuffix_iff)

theorem shouldExport_iff_witness:
  "shouldExport crdA \<and> shouldExport crdB \<and> \<not> shouldExport crdX \<and> \<not> shouldExport crd_beta"
  using shouldExport_iff [of crdA] shouldExport_iff [of crdB]
    shouldExport_iff [of crdX] shouldExport_iff [of crd_beta]
  by (simp add: crdA_def crdB_def crdX_def crd_beta_def suffix_def)

subsection \<open>Resource locator\<close>

lemma storageVersion_filter:
  "storageVersion v vrs =
     (if filter vr_Storage vrs = [] then v else vr_Name (last (filter vr_Storage vrs)))"
  by (induction vrs arbitrary: v) auto

text \<open>
  C10: when a type declares versions flagged as storage (one or several),
  \<open>customResourceGVR\<close> asks the mapper with the name of the last of them in declaration
  order, and returns the mapper's resource or its error, wrapped.
\<close>

theorem customResourceGVR_last_storage:
  assumes "filter vr_Storage (crd_Versions c) \<noteq> []"
  shows "customResourceGVR m c =
     (case m \<lparr>gk_Group = crd_Group c, gk_Kind = crd_Kind c\<rparr>
             (vr_Name (last (filter vr_Storage (crd_Versions c)))) of
        Inl err \<Rightarrow> Inl (Wrapf err ''cannot get REST mapping for %q'' [crd_Name c])
      | Inr rm \<Rightarrow> Inr (rm_Resource rm))"
  using assms by (simp add: customResourceGVR_def storageVersion_filter)

theorem customResourceGVR_last_storage_witness:
  "filter vr_Storage (crd_Versions crd_two_storage) = [v1_status, v2_plain]
   \<and> customResourceGVR mapper_v2 crd_two_storage =
       Inr \<lparr>gvr_Group = ''x.crossplane.io'', gvr_Version = ''v2'', gvr_Resource = ''as''\<rparr>"
proof -
  have f: "filter vr_Storage (crd_Versions crd_two_storage) = [v1_status, v2_plain]"
    by (simp add: crd_two_storage_def v1_status_def v0_served_def v2_plain_def)
  then have ne: "filter vr_Storage (crd_Versions crd_two_storage) \<noteq> []" by simp
  show ?thesis
    using customResourceGVR_last_storage [OF ne, of mapper_v2] f
    by (simp add: mapper_v2_def v2_plain_def crd_two_storage_def)
qed

subsection \<open>Status subresource flag\<close>





subsection \<open>Paginated discovery\<close>

lemma fetchLoop_paged:
  "paged P srv s tok ps \<Longrightarrow>
   fetchLoop P srv s crds tok =
     Some (Inr (crds @ concat (map cl_Items ps)), served P srv s tok ps)"
proof (induction P srv s tok ps arbitrary: crds rule: paged.induct)
  case (1 P srv s tok)
  then show ?case by simp
next
  case (2 P srv s tok p)
  then show ?case
    by (subst fetchLoop.simps) (auto split: prod.splits sum.splits)
next
  case (3 P srv s tok p q ps)
  then show ?case
    by (subst fetchLoop.simps) (auto split: prod.splits sum.splits)
qed

text \<open>
  C2: when the server serves the listing as pages \<open>ps\<close> to a client that asks with the
  page size \<open>P\<close>, starts with the empty token and sends each page's continuation token
  in the next request, every page but the last carrying a token and the last none, then
  \<open>fetchAllCRDs\<close> returns, and returns the items of all pages in order: as many items as the
  pages hold together, none dropped and none repeated.
\<close>

theorem fetchAllCRDs_paged:
  assumes "paged P srv s [] ps"
  shows "fetchAllCRDs P srv s = Some (Inr (concat (map cl_Items ps)), served P srv s [] ps)
     \<and> length (concat (map cl_Items ps)) = sum_list (map (\<lambda>p. length (cl_Items p)) ps)"
  using fetchLoop_paged [OF assms, of "[]"]
  by (simp add: fetchAllCRDs_def length_concat comp_def)

theorem fetchAllCRDs_paged_witness:
  "paged 500 (tokenServer 500 pages3) [] [] (map snd pages3)
   \<and> fetchAllCRDs 500 (tokenServer 500 pages3) [] =
       Some (Inr [crdA, crdX, crdB, crdC],
             [\<lparr>lo_Limit = 500, lo_Continue = []\<rparr>,
              \<lparr>lo_Limit = 500, lo_Continue = ''t1''\<rparr>,
              \<lparr>lo_Limit = 500, lo_Continue = ''t2''\<rparr>])"
proof -
  have p: "paged 500 (tokenServer 500 pages3) [] [] (map snd pages3)"
    by (simp add: pages3_def tokenServer_def)
  show ?thesis
    using p fetchAllCRDs_paged [OF p]
    by (simp add: pages3_def tokenServer_def)
qed

subsection \<open>Runs of the exporter\<close>

text \<open>What each step changes in the world, and the ways a run can go.\<close>

lemma log_simps [simp]:
  "trace (log ev w) = trace w @ [ev]" "files (log ev w) = files w"
  "dirs (log ev w) = dirs w" "kube (log ev w) = kube w"
  by (simp_all add: log_def)

lemma writeStaged_frame:
  assumes "writeStaged e d f w = (r, w')"
  shows "files w' = files w \<and> trace w' = trace w \<and> kube w' = kube w"
  using assms by (auto simp: writeStaged_def split: option.splits)

lemma recordInstance_frame:
  assumes "recordInstance e d g u w = (r, w')"
  shows "files w' = files w \<and> trace w' = trace w \<and> kube w' = kube w"
  using assms
  by (auto simp: recordInstance_def Let_def split: option.splits if_splits
        dest: writeStaged_frame)

lemma recordInstances_frame:
  "recordInstances e d g us w = (r, w') \<Longrightarrow>
   files w' = files w \<and> trace w' = trace w \<and> kube w' = kube w"
proof (induction us arbitrary: w)
  case Nil
  then show ?case by simp
next
  case (Cons u us)
  obtain r1 w1 where s: "recordInstance e d g u w = (r1, w1)" by force
  have fr: "files w1 = files w \<and> trace w1 = trace w \<and> kube w1 = kube w"
    using recordInstance_frame [OF s] .
  show ?case
  proof (cases r1)
    case None
    then have "recordInstances e d g us w1 = (r, w')" using Cons.prems s by simp
    from Cons.IH [OF this] fr show ?thesis by simp
  next
    case (Some err)
    then have "w' = w1" using Cons.prems s by simp
    then show ?thesis using fr by simp
  qed
qed

lemma ExportResources_frame:
  assumes "ExportResources e d tm g w = (r, w')"
  shows "files w' = files w \<and> kube w' = kube w
     \<and> trace w' = trace w @ [ExportResources_ev g tm r]"
proof -
  obtain r1 w1 where s1: "recordType e d g tm w = (r1, w1)" by force
  have f1: "files w1 = files w \<and> trace w1 = trace w \<and> kube w1 = kube w"
    using s1 writeStaged_frame unfolding recordType_def by blast
  obtain r2 w2 where s2: "recordInstances e d g (fst (dynamicClient e g)) w1 = (r2, w2)" by force
  have f2: "files w2 = files w \<and> trace w2 = trace w \<and> kube w2 = kube w"
    using recordInstances_frame [OF s2] f1 by simp
  show ?thesis
    using assms s1 s2 f1 f2
    by (auto simp: ExportResources_def split: option.splits)
qed

lemma exportTypes_frame:
  "exportTypes e d cs crCounts w = (r, w') \<Longrightarrow>
   files w' = files w \<and> kube w' = kube w
   \<and> (\<exists>evs. trace w' = trace w @ evs \<and> (\<forall>ev \<in> set evs. \<exists>g tm x. ev = ExportResources_ev g tm x))"
proof (induction cs arbitrary: crCounts w)
  case Nil
  then show ?case by simp
next
  case (Cons c cs)
  show ?case
  proof (cases "customResourceGVR (resourceMapper e) c")
    case (Inl err)
    then show ?thesis using Cons.prems by simp
  next
    case (Inr g)
    obtain r1 w1 where s: "ExportResources e d (descriptor c) g w = (r1, w1)" by force
    note fr = ExportResources_frame [OF s]
    show ?thesis
    proof (cases r1)
      case (Inl err)
      then show ?thesis using Cons.prems Inr s fr by auto
    next
      case (Inr n)
      then have "exportTypes e d cs (AList.update (GroupResource_String (GroupResourceOf g)) n crCounts) w1 = (r, w')"
        using Cons.prems \<open>customResourceGVR (resourceMapper e) c = Inr g\<close> s by simp
      from Cons.IH [OF this] obtain evs where
        "files w' = files w1" "kube w' = kube w1" "trace w' = trace w1 @ evs"
        "\<forall>ev \<in> set evs. \<exists>g tm x. ev = ExportResources_ev g tm x" by blast
      then show ?thesis using fr by auto
    qed
  qed
qed

lemma ExportMetadata_frame:
  assumes "ExportMetadata e d crCounts w = (r, w')"
  shows "files w' = files w \<and> kube w' = kube w
     \<and> trace w' = trace w @ [ExportMetadata_ev crCounts r]"
  using assms
  by (auto simp: ExportMetadata_def split: option.splits prod.splits dest: writeStaged_frame)


lemma TempDir_ok:
  assumes "os_TempDir e = Inr d"
  shows "TempDir e w = (Inr d, log (TempDir_ev (Inr d)) (w\<lparr>dirs := (dirs w)(d \<mapsto> [])\<rparr>))"
  using assms by (simp add: TempDir_def)

lemma RemoveAll_effect:
  "kube (snd (RemoveAll e d w)) = kube w \<and> files (snd (RemoveAll e d w)) = files w
   \<and> trace (snd (RemoveAll e d w)) = trace w @ [RemoveAll_ev d (os_RemoveAll e d)]
   \<and> (os_RemoveAll e d = None \<longrightarrow> dirs (snd (RemoveAll e d w)) d = None)"
  by (simp add: RemoveAll_def split: option.splits)

lemma File_updates [simp]:
  "(f::File)\<lparr>f_Mode := m, f_Data := c\<rparr> = \<lparr>f_Mode = m, f_Data = c\<rparr>"
  "(f::File)\<lparr>f_Data := c, f_Mode := m\<rparr> = \<lparr>f_Mode = m, f_Data = c\<rparr>"
  by (cases f, simp)+

lemma createdFile_log [simp]: "createdFile e p (log ev w) = createdFile e p w"
  by (simp add: createdFile_def)

lemma archive_cases:
  assumes "archive e d w = (r, w')"
  shows "kube w' = kube w \<and> dirs w' = dirs w \<and>
    ((\<exists>err. r = Some err \<and> files w' = files w
         \<and> trace w' = trace w @ [FilesFromDisk_ev d (Some err)])
   \<or> (\<exists>err. r = Some err \<and> files w' = files w
         \<and> trace w' = trace w @ [FilesFromDisk_ev d None, Create_ev (OutputArchive e) (Some err)])
   \<or> (\<exists>err. r = Some err
         \<and> files w' = (files w)(OutputArchive e \<mapsto> createdFile e (OutputArchive e) w)
         \<and> trace w' = trace w @ [FilesFromDisk_ev d None, Create_ev (OutputArchive e) None,
               Chmod_ev (OutputArchive e) 384 (Some err), Close_ev (OutputArchive e)])
   \<or> (\<exists>err. r = Some err
         \<and> files w' = (files w)(OutputArchive e \<mapsto> \<lparr>f_Mode = 384, f_Data = Partial\<rparr>)
         \<and> trace w' = trace w @ [FilesFromDisk_ev d None, Create_ev (OutputArchive e) None,
               Chmod_ev (OutputArchive e) 384 None, Archive_ev (OutputArchive e) (Some err),
               Close_ev (OutputArchive e)])
   \<or> (\<exists>fl. r = None \<and> dirs w d = Some fl
         \<and> files w' = (files w)(OutputArchive e \<mapsto> \<lparr>f_Mode = 384, f_Data = Archived fl\<rparr>)
         \<and> trace w' = trace w @ [FilesFromDisk_ev d None, Create_ev (OutputArchive e) None,
               Chmod_ev (OutputArchive e) 384 None, Archive_ev (OutputArchive e) None,
               Close_ev (OutputArchive e)]))"
proof (cases "FilesFromDisk e d w")
  case (Pair r1 w1)
  show ?thesis
  proof (cases r1)
    case (Inl err)
    then show ?thesis
      using assms Pair
      by (auto simp: archive_def FilesFromDisk_def split: option.splits)
  next
    case (Inr fl)
    have w1: "w1 = log (FilesFromDisk_ev d None) w" "dirs w d = Some fl"
      using Pair Inr by (auto simp: FilesFromDisk_def split: option.splits)
    show ?thesis
    proof (cases "os_Create e (OutputArchive e)")
      case (Some err)
      then show ?thesis
        using assms Pair Inr w1 by (auto simp: archive_def Create_def)
    next
      case None
      note cr = None
      show ?thesis
      proof (cases "os_Chmod e (OutputArchive e)")
        case (Some err)
        then show ?thesis
          using assms Pair Inr w1 cr
          by (auto simp: archive_def Create_def Chmod_def Close_def)
      next
        case None
        then show ?thesis
          using assms Pair Inr w1 cr
          by (cases "lib_Archive e (OutputArchive e)")
             (auto simp: archive_def Create_def Chmod_def Close_def Archive_def createdFile_def
                split: option.splits)
      qed
    qed
  qed
qed


lemma exportStages_cases:
  assumes "exportStages e d w = Some (r, w')"
  obtains
    (fetch) err s' where
      "fetchAllCRDs (defaultPageSize e) (crdClient e) (kube w) = Some (Inl err, s')"
      "r = Some (Wrap err ''cannot fetch CRDs'')" "w' = w\<lparr>kube := s'\<rparr>"
  | (types) crds s' err where
      "fetchAllCRDs (defaultPageSize e) (crdClient e) (kube w) = Some (Inr crds, s')"
      "exportTypes e d (filter shouldExport crds) [] (w\<lparr>kube := s'\<rparr>) = (Inl err, w')"
      "r = Some err"
  | (summary) crds s' crCounts w2 err where
      "fetchAllCRDs (defaultPageSize e) (crdClient e) (kube w) = Some (Inr crds, s')"
      "exportTypes e d (filter shouldExport crds) [] (w\<lparr>kube := s'\<rparr>) = (Inr crCounts, w2)"
      "ExportMetadata e d crCounts w2 = (Some err, w')"
      "r = Some (Wrap err ''cannot write export metadata'')"
  | (archive) crds s' crCounts w2 w3 ra where
      "fetchAllCRDs (defaultPageSize e) (crdClient e) (kube w) = Some (Inr crds, s')"
      "exportTypes e d (filter shouldExport crds) [] (w\<lparr>kube := s'\<rparr>) = (Inr crCounts, w2)"
      "ExportMetadata e d crCounts w2 = (None, w3)"
      "archive e d w3 = (ra, w')"
      "r = map_option (\<lambda>err. Wrap err ''cannot archive exported state'') ra"
  using assms
  unfolding exportStages_def Let_def
  by (auto split: option.splits sum.splits prod.splits)

lemma Export_cases:
  assumes "Export e w = Some (r, w')"
  obtains
    (tempdir) err where
      "os_TempDir e = Inl err" "r = Some (Wrap err ''cannot create temporary directory'')"
      "w' = log (TempDir_ev (Inl err)) w"
  | (stages) d w2 where
      "os_TempDir e = Inr d"
      "exportStages e d (log (TempDir_ev (Inr d)) (w\<lparr>dirs := (dirs w)(d \<mapsto> [])\<rparr>)) = Some (r, w2)"
      "w' = snd (RemoveAll e d w2)"
  using assms
  unfolding Export_def TempDir_def
  by (auto split: option.splits sum.splits prod.splits)



lemma filter_exported [simp]:
  "filter isExportResources (exported e cs gs) = exported e cs gs"
  "filter isExportMetadata (exported e cs gs) = []"
  "list_ex isExportMetadata (exported e cs gs) = False"
  by (auto simp: exported_def list_ex_iff filter_empty_conv filter_id_conv dest!: set_zip_leftD elim!: in_set_zipE)


lemma only_exports:
  assumes "\<forall>ev \<in> set evs. \<exists>g tm x. ev = ExportResources_ev g tm x"
  shows "\<not> list_ex isExportMetadata evs" "\<not> list_ex isArchiving evs" "\<not> list_ex isCreate evs"
  using assms by (auto simp: list_ex_iff)

text \<open>What a run did before the archiver: no file outside the staging directory is touched.\<close>

lemma before_archive:
  assumes "fetchAllCRDs (defaultPageSize e) (crdClient e) (kube w1) = Some (Inr crds, s')"
    and "exportTypes e d (filter shouldExport crds) [] (w1\<lparr>kube := s'\<rparr>) = (rt, w2)"
  shows "files w2 = files w1
     \<and> (\<exists>evs. trace w2 = trace w1 @ evs \<and> \<not> list_ex isArchiving evs \<and> \<not> list_ex isCreate evs)"
proof -
  from exportTypes_frame [OF assms(2)] obtain evs where
    "files w2 = files w1" "trace w2 = trace w1 @ evs"
    "\<forall>ev \<in> set evs. \<exists>g tm x. ev = ExportResources_ev g tm x" by auto
  then show ?thesis using only_exports [of evs] by auto
qed


lemma observe_Some: "observe d out (Some (r, w)) = Some (r, dirs w d, files w out, trace w)"
  by (simp add: observe_def)

lemma run_env0:
  "\<exists>w'. Export env0 world0 = Some (None, w')"
proof -
  have "map_option fst (Export env0 world0) = Some None" by code_simp
  then show ?thesis by (cases "Export env0 world0") auto
qed



subsection \<open>Cleanup of the staging directory\<close>

text \<open>
  C5, as stated: after \<open>Export\<close> returns, the staging directory does not exist, on every
  exit path. This fails when the removal itself fails: \<open>Export\<close> drops the error of
  \<open>fs.RemoveAll\<close>, returns success, and the staging directory is still there with the
  summary in it.
\<close>

theorem Export_cleanup_counterexample:
  "os_TempDir env_rm = Inr ''/tmp/up1''
   \<and> observe ''/tmp/up1'' ''out.tgz'' (Export env_rm world0) =
       Some (None, Some [SummaryFile []],
             Some \<lparr>f_Mode = 384, f_Data = Archived [SummaryFile []]\<rparr>,
             [TempDir_ev (Inr ''/tmp/up1''), ExportMetadata_ev [] None,
              FilesFromDisk_ev ''/tmp/up1'' None, Create_ev ''out.tgz'' None,
              Chmod_ev ''out.tgz'' 384 None, Archive_ev ''out.tgz'' None, Close_ev ''out.tgz'',
              RemoveAll_ev ''/tmp/up1'' (Some (Err ''permission denied''))])"
  by code_simp

text \<open>
  C5, amended: in every execution of \<open>Export\<close> in which the staging directory was created,
  the removal of the staging directory is the last thing \<open>Export\<close> does before it returns,
  on every exit path, and the directory does not exist afterwards whenever that removal
  succeeds; an error of the removal is dropped.
\<close>

theorem Export_cleanup:
  assumes "Export e w = Some (r, w')" and "os_TempDir e = Inr tmpDir"
  shows "last (trace w') = RemoveAll_ev tmpDir (os_RemoveAll e tmpDir)
     \<and> (os_RemoveAll e tmpDir = None \<longrightarrow> dirs w' tmpDir = None)"
  using assms(1)
proof (cases rule: Export_cases)
  case (tempdir err)
  then show ?thesis using assms(2) by simp
next
  case (stages d w2)
  then have "d = tmpDir" using assms(2) by simp
  then show ?thesis using stages(3) RemoveAll_effect [of e tmpDir w2] by simp
qed



theorem Export_cleanup_witness:
  "\<exists>w'. Export env0 world0 = Some (None, w') \<and> os_TempDir env0 = Inr ''/tmp/up1''
     \<and> os_RemoveAll env0 ''/tmp/up1'' = None
     \<and> last (trace w') = RemoveAll_ev ''/tmp/up1'' None \<and> dirs w' ''/tmp/up1'' = None"
proof -
  obtain w' where ex: "Export env0 world0 = Some (None, w')" using run_env0 by blast
  have td: "os_TempDir env0 = Inr ''/tmp/up1''" by (simp add: env0_def)
  have rm: "os_RemoveAll env0 ''/tmp/up1'' = None" by (simp add: env0_def)
  show ?thesis using Export_cleanup [OF ex td] ex td rm by simp
qed

subsection \<open>The summary comes once, after all types, and before the archive\<close>





subsection \<open>The output archive\<close>

text \<open>
  C6, as stated: \<open>Export\<close> leaves no output file behind when it returns an error. This
  fails when writing the archive fails after the output file was created: \<open>Export\<close>
  returns the error and the partly written file stays at the output path, where there
  was no file before.
\<close>

theorem Export_output_counterexample:
  "observe ''/tmp/up1'' ''out.tgz'' (Export env_full world0) =
     Some (Some (Wrap (Err ''no space left on device'') ''cannot archive exported state''),
           None, Some \<lparr>f_Mode = 384, f_Data = Partial\<rparr>,
           [TempDir_ev (Inr ''/tmp/up1''), ExportMetadata_ev [] None,
            FilesFromDisk_ev ''/tmp/up1'' None, Create_ev ''out.tgz'' None,
            Chmod_ev ''out.tgz'' 384 None,
            Archive_ev ''out.tgz'' (Some (Err ''no space left on device'')),
            Close_ev ''out.tgz'', RemoveAll_ev ''/tmp/up1'' None])
   \<and> files world0 ''out.tgz'' = None"
  by code_simp

text \<open>
  C6, amended: when \<open>Export\<close> returns success it has created exactly one file, at the
  caller's output path, and the file holds the archive; when it returns an error from
  before the creation of the output file, or from the creation itself, no file is created
  or changed; when it returns an error after the output file was created (setting the
  permissions or writing the archive failed), the file stays at the output path, empty or
  partly written: \<open>Export\<close> does not remove it.
\<close>

theorem Export_output:
  assumes "Export e w = Some (r, w')"
  shows "\<exists>evs. trace w' = trace w @ evs
     \<and> (r = None \<longrightarrow>
          filter isCreate evs = [Create_ev (OutputArchive e) None]
          \<and> (\<exists>fl. files w' = (files w)(OutputArchive e \<mapsto> \<lparr>f_Mode = 384, f_Data = Archived fl\<rparr>)))
     \<and> (r \<noteq> None \<longrightarrow>
          (if Create_ev (OutputArchive e) None \<in> set evs
           then files w' = (files w)(OutputArchive e \<mapsto> createdFile e (OutputArchive e) w)
                \<or> files w' = (files w)(OutputArchive e \<mapsto> \<lparr>f_Mode = 384, f_Data = Partial\<rparr>)
           else files w' = files w))"
  using assms
proof (cases rule: Export_cases)
  case (tempdir err)
  then show ?thesis by simp
next
  case (stages d w2)
  let ?w1 = "log (TempDir_ev (Inr d)) (w\<lparr>dirs := (dirs w)(d \<mapsto> [])\<rparr>)"
  let ?rm = "RemoveAll_ev d (os_RemoveAll e d)"
  have w': "trace w' = trace w2 @ [?rm]" "files w' = files w2"
    using stages(3) RemoveAll_effect [of e d w2] by simp_all
  from stages(2) show ?thesis
  proof (cases rule: exportStages_cases)
    case (fetch err s')
    then show ?thesis using w' by simp
  next
    case (types crds s' err)
    from before_archive [OF types(1,2)] obtain evs where
      "files w2 = files w" "trace w2 = trace w @ TempDir_ev (Inr d) # evs"
      "\<not> list_ex isCreate evs" by auto
    then have "trace w' = trace w @ (TempDir_ev (Inr d) # evs @ [?rm])"
      "Create_ev (OutputArchive e) None \<notin> set (TempDir_ev (Inr d) # evs @ [?rm])"
      "files w' = files w"
      using w' by (auto simp: list_ex_iff)
    then show ?thesis using types(3) by (metis option.distinct(1))
  next
    case (summary crds s' crCounts w3 err)
    from before_archive [OF summary(1,2)] obtain evs where
      "files w3 = files w" "trace w3 = trace w @ TempDir_ev (Inr d) # evs"
      "\<not> list_ex isCreate evs" by auto
    then have "trace w' = trace w @ (TempDir_ev (Inr d) # evs @ [ExportMetadata_ev crCounts (Some err), ?rm])"
      "Create_ev (OutputArchive e) None
         \<notin> set (TempDir_ev (Inr d) # evs @ [ExportMetadata_ev crCounts (Some err), ?rm])"
      "files w' = files w"
      using w' ExportMetadata_frame [OF summary(3)] by (auto simp: list_ex_iff)
    then show ?thesis using summary(4) by (metis option.distinct(1))
  next
    case (archive crds s' crCounts w3 w4 ra)
    from before_archive [OF archive(1,2)] obtain evs where
      evs: "files w3 = files w" "trace w3 = trace w @ TempDir_ev (Inr d) # evs"
      "\<not> list_ex isCreate evs" by auto
    let ?pre = "TempDir_ev (Inr d) # evs @ [ExportMetadata_ev crCounts None]"
    have pre: "trace w4 = trace w @ ?pre" "files w4 = files w" "filter isCreate ?pre = []"
      "Create_ev (OutputArchive e) None \<notin> set ?pre"
      using evs ExportMetadata_frame [OF archive(3)]
      by (auto simp: list_ex_iff filter_empty_conv)
    have cf: "createdFile e (OutputArchive e) w4 = createdFile e (OutputArchive e) w"
      using pre(2) by (simp add: createdFile_def)
    from archive_cases [OF archive(4)] show ?thesis
    proof (elim conjE disjE exE)
      fix err
      assume a: "ra = Some err" "files w2 = files w4"
        "trace w2 = trace w4 @ [FilesFromDisk_ev d (Some err)]"
      let ?evs = "?pre @ [FilesFromDisk_ev d (Some err), ?rm]"
      have "trace w' = trace w @ ?evs" "r \<noteq> None" "files w' = files w"
        "Create_ev (OutputArchive e) None \<notin> set ?evs"
        using a w' pre archive(5) by auto
      then show ?thesis by metis
    next
      fix err
      assume a: "ra = Some err" "files w2 = files w4"
        "trace w2 = trace w4 @ [FilesFromDisk_ev d None, Create_ev (OutputArchive e) (Some err)]"
      let ?evs = "?pre @ [FilesFromDisk_ev d None, Create_ev (OutputArchive e) (Some err), ?rm]"
      have "trace w' = trace w @ ?evs" "r \<noteq> None" "files w' = files w"
        "Create_ev (OutputArchive e) None \<notin> set ?evs"
        using a w' pre archive(5) by auto
      then show ?thesis by metis
    next
      fix err
      assume a: "ra = Some err"
        "files w2 = (files w4)(OutputArchive e \<mapsto> createdFile e (OutputArchive e) w4)"
        "trace w2 = trace w4 @ [FilesFromDisk_ev d None, Create_ev (OutputArchive e) None,
               Chmod_ev (OutputArchive e) 384 (Some err), Close_ev (OutputArchive e)]"
      let ?evs = "?pre @ [FilesFromDisk_ev d None, Create_ev (OutputArchive e) None,
               Chmod_ev (OutputArchive e) 384 (Some err), Close_ev (OutputArchive e), ?rm]"
      have "trace w' = trace w @ ?evs" "r \<noteq> None"
        "files w' = (files w)(OutputArchive e \<mapsto> createdFile e (OutputArchive e) w)"
        "Create_ev (OutputArchive e) None \<in> set ?evs"
        using a w' pre cf archive(5) by auto
      then show ?thesis by metis
    next
      fix err
      assume a: "ra = Some err"
        "files w2 = (files w4)(OutputArchive e \<mapsto> \<lparr>f_Mode = 384, f_Data = Partial\<rparr>)"
        "trace w2 = trace w4 @ [FilesFromDisk_ev d None, Create_ev (OutputArchive e) None,
               Chmod_ev (OutputArchive e) 384 None, Archive_ev (OutputArchive e) (Some err),
               Close_ev (OutputArchive e)]"
      let ?evs = "?pre @ [FilesFromDisk_ev d None, Create_ev (OutputArchive e) None,
               Chmod_ev (OutputArchive e) 384 None, Archive_ev (OutputArchive e) (Some err),
               Close_ev (OutputArchive e), ?rm]"
      have "trace w' = trace w @ ?evs" "r \<noteq> None"
        "files w' = (files w)(OutputArchive e \<mapsto> \<lparr>f_Mode = 384, f_Data = Partial\<rparr>)"
        "Create_ev (OutputArchive e) None \<in> set ?evs"
        using a w' pre archive(5) by auto
      then show ?thesis by metis
    next
      fix fl
      assume a: "ra = None" "dirs w4 d = Some fl"
        "files w2 = (files w4)(OutputArchive e \<mapsto> \<lparr>f_Mode = 384, f_Data = Archived fl\<rparr>)"
        "trace w2 = trace w4 @ [FilesFromDisk_ev d None, Create_ev (OutputArchive e) None,
               Chmod_ev (OutputArchive e) 384 None, Archive_ev (OutputArchive e) None,
               Close_ev (OutputArchive e)]"
      let ?evs = "?pre @ [FilesFromDisk_ev d None, Create_ev (OutputArchive e) None,
               Chmod_ev (OutputArchive e) 384 None, Archive_ev (OutputArchive e) None,
               Close_ev (OutputArchive e), ?rm]"
      have "trace w' = trace w @ ?evs" "r = None"
        "files w' = (files w)(OutputArchive e \<mapsto> \<lparr>f_Mode = 384, f_Data = Archived fl\<rparr>)"
        "filter isCreate ?evs = [Create_ev (OutputArchive e) None]"
        using a w' pre(1,2,3) archive(5) by auto
      then show ?thesis by metis
    qed
  qed
qed

theorem Export_output_witness:
  "\<exists>w' evs fl. Export env0 world0 = Some (None, w') \<and> trace w' = trace world0 @ evs
     \<and> filter isCreate evs = [Create_ev ''out.tgz'' None]
     \<and> files w' = (files world0)(''out.tgz'' \<mapsto> \<lparr>f_Mode = 384, f_Data = Archived fl\<rparr>)"
proof -
  obtain w' where ex: "Export env0 world0 = Some (None, w')" using run_env0 by blast
  have out: "OutputArchive env0 = ''out.tgz''" by (simp add: env0_def)
  show ?thesis using Export_output [OF ex] ex out by auto
qed

subsection \<open>Permissions of the archive\<close>

lemma ownerOnly_0600: "ownerOnly 384"
  by (simp add: ownerOnly_def)

lemma not_archiving_no_Archive:
  assumes "\<not> list_ex isArchiving evs"
  shows "Archive_ev p x \<notin> set evs" "Chmod_ev p m y \<notin> set evs"
  using assms by (auto simp: list_ex_iff)

text \<open>The events of a run from the archiver on, and the output file they leave.\<close>

lemma Export_archiving:
  assumes "Export e w = Some (r, w')"
  shows "\<exists>pre post. trace w' = trace w @ pre @ post \<and> \<not> list_ex isArchiving pre \<and>
    ((r \<noteq> None \<and> (\<forall>p x. Archive_ev p x \<notin> set post) \<and> (\<forall>p m y. Chmod_ev p m (Some y) \<notin> set post))
   \<or> (\<exists>err d rx. r \<noteq> None
         \<and> files w' (OutputArchive e) = Some (createdFile e (OutputArchive e) w)
         \<and> post = [FilesFromDisk_ev d None, Create_ev (OutputArchive e) None,
               Chmod_ev (OutputArchive e) 384 (Some err), Close_ev (OutputArchive e),
               RemoveAll_ev d rx])
   \<or> (\<exists>x fl d rx. (r = None \<longrightarrow> x = None)
         \<and> (x = None \<longrightarrow> files w' (OutputArchive e) = Some \<lparr>f_Mode = 384, f_Data = Archived fl\<rparr>)
         \<and> post = [FilesFromDisk_ev d None, Create_ev (OutputArchive e) None,
               Chmod_ev (OutputArchive e) 384 None, Archive_ev (OutputArchive e) x,
               Close_ev (OutputArchive e), RemoveAll_ev d rx]))"
  using assms
proof (cases rule: Export_cases)
  case (tempdir err)
  show ?thesis
    apply (rule exI [of _ "[TempDir_ev (Inl err)]"])
    apply (rule exI [of _ "[]"])
    using tempdir by (simp add: list_ex_iff)
next
  case (stages d w2)
  let ?rm = "RemoveAll_ev d (os_RemoveAll e d)"
  have w': "trace w' = trace w2 @ [?rm]" "files w' = files w2"
    using stages(3) RemoveAll_effect [of e d w2] by simp_all
  from stages(2) show ?thesis
  proof (cases rule: exportStages_cases)
    case (fetch err s')
    show ?thesis
      apply (rule exI [of _ "[TempDir_ev (Inr d), ?rm]"])
      apply (rule exI [of _ "[]"])
      using fetch w' by (simp add: list_ex_iff)
  next
    case (types crds s' err)
    from before_archive [OF types(1,2)] obtain evs where
      evs: "trace w2 = trace w @ TempDir_ev (Inr d) # evs" "\<not> list_ex isArchiving evs" by auto
    show ?thesis
      apply (rule exI [of _ "TempDir_ev (Inr d) # evs @ [?rm]"])
      apply (rule exI [of _ "[]"])
      using types(3) w' evs by (simp add: list_ex_iff)
  next
    case (summary crds s' crCounts w3 err)
    from before_archive [OF summary(1,2)] obtain evs where
      evs: "trace w3 = trace w @ TempDir_ev (Inr d) # evs" "\<not> list_ex isArchiving evs" by auto
    show ?thesis
      apply (rule exI [of _ "TempDir_ev (Inr d) # evs @ [ExportMetadata_ev crCounts (Some err), ?rm]"])
      apply (rule exI [of _ "[]"])
      using summary(4) w' evs ExportMetadata_frame [OF summary(3)] by (simp add: list_ex_iff)
  next
    case (archive crds s' crCounts w3 w4 ra)
    from before_archive [OF archive(1,2)] obtain evs where
      evs: "files w3 = files w" "trace w3 = trace w @ TempDir_ev (Inr d) # evs"
      "\<not> list_ex isArchiving evs" by auto
    let ?pre = "TempDir_ev (Inr d) # evs @ [ExportMetadata_ev crCounts None]"
    have pre: "trace w4 = trace w @ ?pre" "files w4 = files w" "\<not> list_ex isArchiving ?pre"
      using evs ExportMetadata_frame [OF archive(3)] by (simp_all add: list_ex_iff)
    have cf: "createdFile e (OutputArchive e) w4 = createdFile e (OutputArchive e) w"
      using pre(2) by (simp add: createdFile_def)
    from archive_cases [OF archive(4)] show ?thesis
    proof (elim conjE disjE exE)
      fix err
      assume a: "ra = Some err" "files w2 = files w4"
        "trace w2 = trace w4 @ [FilesFromDisk_ev d (Some err)]"
      show ?thesis
        apply (rule exI [of _ ?pre])
        apply (rule exI [of _ "[FilesFromDisk_ev d (Some err), ?rm]"])
        using a w' pre(1,3) archive(5) by simp
    next
      fix err
      assume a: "ra = Some err" "files w2 = files w4"
        "trace w2 = trace w4 @ [FilesFromDisk_ev d None, Create_ev (OutputArchive e) (Some err)]"
      show ?thesis
        apply (rule exI [of _ ?pre])
        apply (rule exI [of _ "[FilesFromDisk_ev d None, Create_ev (OutputArchive e) (Some err), ?rm]"])
        using a w' pre(1,3) archive(5) by simp
    next
      fix err
      assume a: "ra = Some err"
        "files w2 = (files w4)(OutputArchive e \<mapsto> createdFile e (OutputArchive e) w4)"
        "trace w2 = trace w4 @ [FilesFromDisk_ev d None, Create_ev (OutputArchive e) None,
               Chmod_ev (OutputArchive e) 384 (Some err), Close_ev (OutputArchive e)]"
      show ?thesis
        apply (rule exI [of _ ?pre])
        apply (rule exI [of _ "[FilesFromDisk_ev d None, Create_ev (OutputArchive e) None,
               Chmod_ev (OutputArchive e) 384 (Some err), Close_ev (OutputArchive e), ?rm]"])
        using a w' pre(1,3) cf archive(5) by simp
    next
      fix err
      assume a: "ra = Some err"
        "files w2 = (files w4)(OutputArchive e \<mapsto> \<lparr>f_Mode = 384, f_Data = Partial\<rparr>)"
        "trace w2 = trace w4 @ [FilesFromDisk_ev d None, Create_ev (OutputArchive e) None,
               Chmod_ev (OutputArchive e) 384 None, Archive_ev (OutputArchive e) (Some err),
               Close_ev (OutputArchive e)]"
      show ?thesis
        apply (rule exI [of _ ?pre])
        apply (rule exI [of _ "[FilesFromDisk_ev d None, Create_ev (OutputArchive e) None,
               Chmod_ev (OutputArchive e) 384 None, Archive_ev (OutputArchive e) (Some err),
               Close_ev (OutputArchive e), ?rm]"])
        using a w' pre(1,3) archive(5) by simp
    next
      fix fl
      assume a: "ra = None" "dirs w4 d = Some fl"
        "files w2 = (files w4)(OutputArchive e \<mapsto> \<lparr>f_Mode = 384, f_Data = Archived fl\<rparr>)"
        "trace w2 = trace w4 @ [FilesFromDisk_ev d None, Create_ev (OutputArchive e) None,
               Chmod_ev (OutputArchive e) 384 None, Archive_ev (OutputArchive e) None,
               Close_ev (OutputArchive e)]"
      show ?thesis
        apply (rule exI [of _ ?pre])
        apply (rule exI [of _ "[FilesFromDisk_ev d None, Create_ev (OutputArchive e) None,
               Chmod_ev (OutputArchive e) 384 None, Archive_ev (OutputArchive e) None,
               Close_ev (OutputArchive e), ?rm]"])
        using a w' pre(1,3) archive(5) by auto
    qed
  qed
qed


lemma trace_env0:
  "map_option (\<lambda>(r, w). trace w) (Export env0 world0) = Some
  [TempDir_ev (Inr ''/tmp/up1''),
   ExportResources_ev
    \<lparr>gvr_Group = ''x.crossplane.io'', gvr_Version = ''v1'', gvr_Resource = ''as''\<rparr>
    \<lparr>tm_Categories = [''crossplane''], tm_WithStatusSubresource = False\<rparr> (Inr 2),
   ExportResources_ev
    \<lparr>gvr_Group = ''y.org'', gvr_Version = ''v1'', gvr_Resource = ''bs''\<rparr>
    \<lparr>tm_Categories = [], tm_WithStatusSubresource = False\<rparr> (Inr 0),
   ExportResources_ev
    \<lparr>gvr_Group = ''x.crossplane.io'', gvr_Version = ''v1'', gvr_Resource = ''cs''\<rparr>
    \<lparr>tm_Categories = [], tm_WithStatusSubresource = True\<rparr> (Inr 1),
   ExportMetadata_ev
    [(''as.x.crossplane.io'', 2), (''bs.y.org'', 0), (''cs.x.crossplane.io'', 1)] None,
   FilesFromDisk_ev ''/tmp/up1'' None, Create_ev ''out.tgz'' None,
   Chmod_ev ''out.tgz'' 384 None, Archive_ev ''out.tgz'' None,
   Close_ev ''out.tgz'', RemoveAll_ev ''/tmp/up1'' None]"
  by code_simp

text \<open>
  C9, as stated: the permissions of the archive file are fixed before or as the file is
  created. This fails: \<open>archive\<close> creates the output file with \<open>fs.Create\<close>, which gives a
  new file the mode \<open>0666\<close> less the umask, here \<open>0644\<close> (420), readable by the group and by
  others; the mode \<open>0600\<close> comes with a later call, and when that call fails \<open>Export\<close>
  returns with the file left readable by others.
\<close>

theorem Export_archive_mode_counterexample:
  "files world0 ''out.tgz'' = None
   \<and> files (snd (Create env_chmod ''out.tgz'' world0)) ''out.tgz''
       = Some \<lparr>f_Mode = 420, f_Data = Empty\<rparr>
   \<and> \<not> ownerOnly 420
   \<and> observe ''/tmp/up1'' ''out.tgz'' (Export env_chmod world0) =
       Some (Some (Wrap (Err ''operation not permitted'') ''cannot archive exported state''),
             None, Some \<lparr>f_Mode = 420, f_Data = Empty\<rparr>,
             [TempDir_ev (Inr ''/tmp/up1''), ExportMetadata_ev [] None,
              FilesFromDisk_ev ''/tmp/up1'' None, Create_ev ''out.tgz'' None,
              Chmod_ev ''out.tgz'' 384 (Some (Err ''operation not permitted'')),
              Close_ev ''out.tgz'', RemoveAll_ev ''/tmp/up1'' None])"
proof (intro conjI)
  show "files world0 ''out.tgz'' = None" by code_simp
  show "files (snd (Create env_chmod ''out.tgz'' world0)) ''out.tgz''
       = Some \<lparr>f_Mode = 420, f_Data = Empty\<rparr>" by code_simp
  show "\<not> ownerOnly 420" by (simp add: ownerOnly_def)
  show "observe ''/tmp/up1'' ''out.tgz'' (Export env_chmod world0) =
       Some (Some (Wrap (Err ''operation not permitted'') ''cannot archive exported state''),
             None, Some \<lparr>f_Mode = 420, f_Data = Empty\<rparr>,
             [TempDir_ev (Inr ''/tmp/up1''), ExportMetadata_ev [] None,
              FilesFromDisk_ev ''/tmp/up1'' None, Create_ev ''out.tgz'' None,
              Chmod_ev ''out.tgz'' 384 (Some (Err ''operation not permitted'')),
              Close_ev ''out.tgz'', RemoveAll_ev ''/tmp/up1'' None])" by code_simp
qed

text \<open>
  C9, amended: when \<open>Export\<close> succeeds, the archive file has the permission bits \<open>0600\<close>,
  which give nothing to the group and to others. The bits are set by a call of its own
  after the file was created, and the archive is written only after that call succeeded:
  a write of the archive comes right after the creation of the output file and the
  successful change of its mode to \<open>0600\<close>. When the change of mode fails, the file is
  left as it was created, with the mode \<open>0666\<close> less the umask if it is new.
\<close>

theorem Export_archive_mode:
  assumes "Export e w = Some (r, w')"
  shows "\<exists>evs. trace w' = trace w @ evs
     \<and> (r = None \<longrightarrow>
          (\<exists>fl. files w' (OutputArchive e) = Some \<lparr>f_Mode = 384, f_Data = Archived fl\<rparr>)
          \<and> ownerOnly 384)
     \<and> (\<forall>p x. Archive_ev p x \<in> set evs \<longrightarrow>
          p = OutputArchive e
          \<and> (\<exists>pre post. evs = pre @ [Create_ev (OutputArchive e) None,
                 Chmod_ev (OutputArchive e) 384 None, Archive_ev (OutputArchive e) x] @ post))
     \<and> (\<forall>p m err. Chmod_ev p m (Some err) \<in> set evs \<longrightarrow>
          files w' (OutputArchive e) = Some (createdFile e (OutputArchive e) w))"
proof -
  from Export_archiving [OF assms] obtain pre post where
    t: "trace w' = trace w @ pre @ post" and pre: "\<not> list_ex isArchiving pre" and
    c: "(r \<noteq> None \<and> (\<forall>p x. Archive_ev p x \<notin> set post) \<and> (\<forall>p m y. Chmod_ev p m (Some y) \<notin> set post))
   \<or> (\<exists>err d rx. r \<noteq> None
         \<and> files w' (OutputArchive e) = Some (createdFile e (OutputArchive e) w)
         \<and> post = [FilesFromDisk_ev d None, Create_ev (OutputArchive e) None,
               Chmod_ev (OutputArchive e) 384 (Some err), Close_ev (OutputArchive e),
               RemoveAll_ev d rx])
   \<or> (\<exists>x fl d rx. (r = None \<longrightarrow> x = None)
         \<and> (x = None \<longrightarrow> files w' (OutputArchive e) = Some \<lparr>f_Mode = 384, f_Data = Archived fl\<rparr>)
         \<and> post = [FilesFromDisk_ev d None, Create_ev (OutputArchive e) None,
               Chmod_ev (OutputArchive e) 384 None, Archive_ev (OutputArchive e) x,
               Close_ev (OutputArchive e), RemoveAll_ev d rx])"
    by (elim exE conjE) (rule that)
  note np = not_archiving_no_Archive [OF pre]
  have "trace w' = trace w @ (pre @ post)
     \<and> (r = None \<longrightarrow>
          (\<exists>fl. files w' (OutputArchive e) = Some \<lparr>f_Mode = 384, f_Data = Archived fl\<rparr>)
          \<and> ownerOnly 384)
     \<and> (\<forall>p x. Archive_ev p x \<in> set (pre @ post) \<longrightarrow>
          p = OutputArchive e
          \<and> (\<exists>pre' post'. pre @ post = pre' @ [Create_ev (OutputArchive e) None,
                 Chmod_ev (OutputArchive e) 384 None, Archive_ev (OutputArchive e) x] @ post'))
     \<and> (\<forall>p m err. Chmod_ev p m (Some err) \<in> set (pre @ post) \<longrightarrow>
          files w' (OutputArchive e) = Some (createdFile e (OutputArchive e) w))"
    using c
  proof (elim disjE exE conjE)
    assume "r \<noteq> None" "\<forall>p x. Archive_ev p x \<notin> set post"
      "\<forall>p m y. Chmod_ev p m (Some y) \<notin> set post"
    then show ?thesis using t np by auto
  next
    fix err d rx
    assume a: "r \<noteq> None"
      "files w' (OutputArchive e) = Some (createdFile e (OutputArchive e) w)"
      "post = [FilesFromDisk_ev d None, Create_ev (OutputArchive e) None,
               Chmod_ev (OutputArchive e) 384 (Some err), Close_ev (OutputArchive e),
               RemoveAll_ev d rx]"
    show ?thesis using t np a by auto
  next
    fix x fl d rx
    assume a: "r = None \<longrightarrow> x = None"
      "x = None \<longrightarrow> files w' (OutputArchive e) = Some \<lparr>f_Mode = 384, f_Data = Archived fl\<rparr>"
      "post = [FilesFromDisk_ev d None, Create_ev (OutputArchive e) None,
               Chmod_ev (OutputArchive e) 384 None, Archive_ev (OutputArchive e) x,
               Close_ev (OutputArchive e), RemoveAll_ev d rx]"
    have dec: "pre @ post = (pre @ [FilesFromDisk_ev d None]) @ [Create_ev (OutputArchive e) None,
                 Chmod_ev (OutputArchive e) 384 None, Archive_ev (OutputArchive e) x]
                 @ [Close_ev (OutputArchive e), RemoveAll_ev d rx]"
      using a(3) by simp
    have ar: "\<And>p y. Archive_ev p y \<in> set (pre @ post) \<Longrightarrow> p = OutputArchive e \<and> y = x"
      using a(3) np(1) by auto
    have ch: "\<And>p m y. Chmod_ev p m (Some y) \<notin> set (pre @ post)"
      using a(3) np(2) by auto
    show ?thesis
    proof (intro conjI allI impI)
      show "trace w' = trace w @ pre @ post" by (rule t)
    next
      assume "r = None"
      then show "\<exists>fl. files w' (OutputArchive e) = Some \<lparr>f_Mode = 384, f_Data = Archived fl\<rparr>"
        using a(1,2) by blast
    next
      show "ownerOnly 384" by (rule ownerOnly_0600)
    next
      fix p y assume "Archive_ev p y \<in> set (pre @ post)"
      then show "p = OutputArchive e" using ar by blast
    next
      fix p y assume "Archive_ev p y \<in> set (pre @ post)"
      then have "y = x" using ar by blast
      then show "\<exists>pre' post'. pre @ post = pre' @ [Create_ev (OutputArchive e) None,
                 Chmod_ev (OutputArchive e) 384 None, Archive_ev (OutputArchive e) y] @ post'"
        using dec by blast
    next
      fix p m err assume "Chmod_ev p m (Some err) \<in> set (pre @ post)"
      then show "files w' (OutputArchive e) = Some (createdFile e (OutputArchive e) w)"
        using ch by blast
    qed
  qed
  then show ?thesis by (rule exI)
qed

theorem Export_archive_mode_witness:
  "\<exists>w' evs fl pre post. Export env0 world0 = Some (None, w') \<and> trace w' = trace world0 @ evs
     \<and> files w' ''out.tgz'' = Some \<lparr>f_Mode = 384, f_Data = Archived fl\<rparr> \<and> ownerOnly 384
     \<and> Archive_ev ''out.tgz'' None \<in> set evs
     \<and> evs = pre @ [Create_ev ''out.tgz'' None, Chmod_ev ''out.tgz'' 384 None,
                     Archive_ev ''out.tgz'' None] @ post"
proof -
  obtain w' where ex: "Export env0 world0 = Some (None, w')" using run_env0 by blast
  have out: "OutputArchive env0 = ''out.tgz''" by (simp add: env0_def)
  have "Archive_ev ''out.tgz'' None
          \<in> set (the (map_option (\<lambda>(r, w). trace w) (Export env0 world0)))"
    unfolding trace_env0 by simp
  then have tr: "Archive_ev ''out.tgz'' None \<in> set (trace w')" using ex by simp
  from Export_archive_mode [OF ex] obtain evs where
    a1: "trace w' = trace world0 @ evs" and
    a2: "(None :: error option) = None \<longrightarrow>
          (\<exists>fl. files w' (OutputArchive env0) = Some \<lparr>f_Mode = 384, f_Data = Archived fl\<rparr>)
          \<and> ownerOnly 384" and
    a3: "\<forall>p x. Archive_ev p x \<in> set evs \<longrightarrow> p = OutputArchive env0
          \<and> (\<exists>pre post. evs = pre @ [Create_ev (OutputArchive env0) None,
                 Chmod_ev (OutputArchive env0) 384 None, Archive_ev (OutputArchive env0) x] @ post)" and
    a4: "\<forall>p m err. Chmod_ev p m (Some err) \<in> set evs \<longrightarrow>
          files w' (OutputArchive env0) = Some (createdFile env0 (OutputArchive env0) world0)"
    by (elim exE conjE) (rule that)
  have arch: "Archive_ev ''out.tgz'' None \<in> set evs"
    using tr a1 by (simp add: world0_def)
  from a3 [rule_format, OF arch] obtain pre post where
    dec: "evs = pre @ [Create_ev ''out.tgz'' None, Chmod_ev ''out.tgz'' 384 None,
                       Archive_ev ''out.tgz'' None] @ post"
    unfolding out by (elim exE conjE) (rule that)
  from a2 obtain fl where
    fl: "files w' ''out.tgz'' = Some \<lparr>f_Mode = 384, f_Data = Archived fl\<rparr>" and oo: "ownerOnly 384"
    unfolding out by blast
  show ?thesis
    apply (rule exI [of _ w'], rule exI [of _ evs], rule exI [of _ fl])
    apply (rule exI [of _ pre], rule exI [of _ post])
    apply (intro conjI)
         apply (rule ex)
        apply (rule a1)
       apply (rule fl)
      apply (rule oo)
     apply (rule arch)
    apply (rule dec)
    done
qed

subsection \<open>A type without a storage version\<close>






subsection \<open>Counts in the summary\<close>





lemma isInstance_instanceFile [simp]:
  "isInstance (instanceFile g u)" "isInstanceOf g' (instanceFile g u) = (g = g')"
  by (simp_all add: instanceFile_def)




















end
